theory Spec2Isabelle
  imports Complex_Main "HOL-Library.Product_Lexorder"
begin

section \<open>Heat hazard assistant: feature pipeline, threshold selection and serving\<close>

text \<open>
  The Python sources compute on double precision floats held in pandas and numpy
  containers. Floating point numbers are modelled as real numbers and the frames are
  taken without missing cells (NaN), except where a column is given an option type.
  Calls into pandas, geopandas, scikit-learn and the standard library are modelled by
  the behaviour those libraries document; such definitions say so.
\<close>

subsection \<open>Python exceptions\<close>

datatype py_error = ValueError string | IndexError string | KeyError string

subsection \<open>Risk tiers (inference/main.py, get_risk_level)\<close>

definition get_risk_level :: "real \<Rightarrow> string" where
  "get_risk_level risk_score =
     (if risk_score < 0.3 then ''LOW''
      else if risk_score < 0.6 then ''MEDIUM''
      else if risk_score < 0.8 then ''HIGH''
      else ''EXTREME'')"

subsection \<open>Threshold selection (ML/improved_model.py, find_best_threshold)\<close>

text \<open>
  \<open>precision_recall_curve\<close> belongs to scikit-learn; it is a parameter of the model.
  It returns precision and recall arrays of one length and a threshold array one shorter.
\<close>

type_synonym pr_curve = "real list \<times> real list \<times> real list"

text \<open>\<open>t >= 0.05 & t <= 0.95\<close>, elementwise.\<close>

definition in_band :: "real \<Rightarrow> bool" where
  "in_band x = (0.05 \<le> x \<and> x \<le> 0.95)"

text \<open>
  \<open>a[mask]\<close> with a boolean mask keeps the entries whose mask is set; numpy raises
  IndexError when the mask's length differs from the array's.
\<close>

definition bool_index :: "'a list \<Rightarrow> bool list \<Rightarrow> py_error + 'a list" where
  "bool_index a msk =
     (if length a \<noteq> length msk then Inl (IndexError ''boolean index did not match'')
      else Inr (map fst (filter snd (zip a msk))))"

text \<open>\<open>f1 = 2 * (p * r) / (p + r + 1e-9)\<close>\<close>

definition f1_of :: "real \<Rightarrow> real \<Rightarrow> real" where
  "f1_of p r = 2 * (p * r) / (p + r + 1 / 10 ^ 9)"

text \<open>\<open>np.argmax\<close>: the first index of the largest entry; ValueError on an empty array.\<close>

fun argmax_loop :: "real list \<Rightarrow> nat \<Rightarrow> nat \<Rightarrow> real \<Rightarrow> nat" where
  "argmax_loop [] i best v = best"
| "argmax_loop (x # xs) i best v =
     (if v < x then argmax_loop xs (Suc i) i x else argmax_loop xs (Suc i) best v)"

definition argmax :: "real list \<Rightarrow> py_error + nat" where
  "argmax xs =
     (case xs of
        [] \<Rightarrow> Inl (ValueError ''attempt to get argmax of an empty sequence'')
      | x # xs' \<Rightarrow> Inr (argmax_loop xs' 1 0 x))"

definition find_best_threshold ::
  "('l \<Rightarrow> 's \<Rightarrow> pr_curve) \<Rightarrow> 'l \<Rightarrow> 's \<Rightarrow> py_error + (real \<times> real)" where
  "find_best_threshold precision_recall_curve y_true y_scores =
     (case precision_recall_curve y_true y_scores of (p, r, t) \<Rightarrow>
        let msk = map in_band t in
        if \<not> list_ex (\<lambda>m. m) msk then Inr (0.5, 0.0)
        else
          (case bool_index (butlast p) msk of Inl e \<Rightarrow> Inl e | Inr p' \<Rightarrow>
           case bool_index (butlast r) msk of Inl e \<Rightarrow> Inl e | Inr r' \<Rightarrow>
           case bool_index t msk of Inl e \<Rightarrow> Inl e | Inr t' \<Rightarrow>
             let f1 = map2 f1_of p' r' in
             (case argmax f1 of Inl e \<Rightarrow> Inl e
              | Inr idx \<Rightarrow> Inr (t' ! idx, f1 ! idx))))"

subsection \<open>Calendar dates (datetime of the standard library, pandas timestamps)\<close>

text \<open>
  A timestamp is kept by its calendar fields; both \<open>datetime\<close> objects and the
  entries of a pandas datetime column are of this type. Fractions of a second are left out.
\<close>

record datetime =
  year :: nat
  month :: nat
  day :: nat
  hour :: nat
  minute :: nat
  second :: nat

text \<open>Timestamps are ordered as their field tuples are.\<close>

type_synonym dt_tuple = "nat \<times> nat \<times> nat \<times> nat \<times> nat \<times> nat"

definition dt_key :: "datetime \<Rightarrow> dt_tuple" where
  "dt_key d = (year d, month d, day d, datetime.hour d, minute d, second d)"

text \<open>The proleptic Gregorian calendar of the \<open>datetime\<close> module.\<close>

definition is_leap :: "nat \<Rightarrow> bool" where
  "is_leap y = (y mod 4 = 0 \<and> (y mod 100 \<noteq> 0 \<or> y mod 400 = 0))"

definition days_in_month :: "nat \<Rightarrow> nat \<Rightarrow> nat" where
  "days_in_month y m =
     (if m = 2 \<and> is_leap y then 29
      else [31, 28, 31, 30, 31, 30, 31, 31, 30, 31, 30, 31] ! (m - 1))"

definition days_before_year :: "nat \<Rightarrow> nat" where
  "days_before_year y = (y - 1) * 365 + (y - 1) div 4 - (y - 1) div 100 + (y - 1) div 400"

definition days_before_month :: "nat \<Rightarrow> nat \<Rightarrow> nat" where
  "days_before_month y m =
     [0, 0, 31, 59, 90, 120, 151, 181, 212, 243, 273, 304, 334] ! m
       + (if 2 < m \<and> is_leap y then 1 else 0)"

definition ymd2ord :: "nat \<Rightarrow> nat \<Rightarrow> nat \<Rightarrow> nat" where
  "ymd2ord y m d = days_before_year y + days_before_month y m + d"

text \<open>\<open>date.weekday()\<close>, also pandas' \<open>dt.dayofweek\<close>: Monday is 0, Sunday is 6.\<close>

definition weekday :: "datetime \<Rightarrow> nat" where
  "weekday d = (ymd2ord (year d) (month d) (day d) + 6) mod 7"

text \<open>\<open>timetuple().tm_yday\<close>\<close>

definition tm_yday :: "datetime \<Rightarrow> nat" where
  "tm_yday d = days_before_month (year d) (month d) + day d"

text \<open>
  \<open>datetime.strptime(s, "%Y-%m-%d")\<close>. The standard library matches the whole string
  against four digits, a dash, a month token (1 to 12, one or two digits), a dash and a
  day token (1 to 31, one or two digits, or a blank and a digit), and then builds the
  date, which fails for year 0 and for a day the month does not have. Every failure is
  a ValueError.
\<close>

fun split_dash :: "string \<Rightarrow> string list" where
  "split_dash [] = [[]]"
| "split_dash (c # cs) =
     (if c = CHR ''-'' then [] # split_dash cs
      else (case split_dash cs of [] \<Rightarrow> [[c]] | w # ws \<Rightarrow> (c # w) # ws))"

definition digit_val :: "char \<Rightarrow> nat option" where
  "digit_val c = map_of (zip ''0123456789'' [0, 1, 2, 3, 4, 5, 6, 7, 8, 9]) c"

definition int_of_digits :: "string \<Rightarrow> nat option" where
  "int_of_digits s =
     (if s = [] then None
      else foldl (\<lambda>acc c. case acc of None \<Rightarrow> None
                          | Some a \<Rightarrow> (case digit_val c of None \<Rightarrow> None
                                       | Some d \<Rightarrow> Some (10 * a + d)))
             (Some 0) s)"

definition month_token :: "string \<Rightarrow> bool" where
  "month_token ms =
     (case ms of
        [c] \<Rightarrow> c \<in> set ''123456789''
      | [a, c] \<Rightarrow> (a = CHR ''1'' \<and> c \<in> set ''012'') \<or> (a = CHR ''0'' \<and> c \<in> set ''123456789'')
      | _ \<Rightarrow> False)"

definition day_token :: "string \<Rightarrow> bool" where
  "day_token ds =
     (case ds of
        [c] \<Rightarrow> c \<in> set ''123456789''
      | [a, c] \<Rightarrow> (a = CHR ''3'' \<and> c \<in> set ''01'')
               \<or> (a \<in> set ''12'' \<and> c \<in> set ''0123456789'')
               \<or> (a = CHR ''0'' \<and> c \<in> set ''123456789'')
               \<or> (a = CHR '' '' \<and> c \<in> set ''123456789'')
      | _ \<Rightarrow> False)"

definition strptime_ymd :: "string \<Rightarrow> py_error + datetime" where
  "strptime_ymd s =
     (case split_dash s of
        [ys, ms, ds] \<Rightarrow>
          if length ys = 4 \<and> month_token ms \<and> day_token ds then
            (case (int_of_digits ys, int_of_digits ms,
                   int_of_digits (dropWhile (\<lambda>c. c = CHR '' '') ds)) of
               (Some y, Some m, Some d) \<Rightarrow>
                 if y < 1 then Inl (ValueError ''year is out of range'')
                 else if days_in_month y m < d then
                   Inl (ValueError ''day is out of range for month'')
                 else Inr \<lparr>year = y, month = m, day = d, hour = 0, minute = 0, second = 0\<rparr>
             | _ \<Rightarrow> Inl (ValueError ''time data does not match format''))
          else Inl (ValueError ''time data does not match format'')
      | _ \<Rightarrow> Inl (ValueError ''time data does not match format''))"

subsection \<open>Feature reconstruction at serving time (inference/main.py)\<close>

datatype http_exception = HTTPException (status_code: nat) (detail: string)

record PredictionRequest =
  lat :: real
  lon :: real
  date :: string
  hour :: int
  temp :: real
  tavg :: real
  tmin :: real
  prcp :: real
  temp_roll3 :: "real option"
  temp_roll7 :: "real option"
  tavg_roll3 :: "real option"
  tavg_roll7 :: "real option"

record PredictionResponse =
  risk_score :: real
  risk_level :: string
  threshold :: real
  features_used :: nat

text \<open>\<open>np.hypot\<close>\<close>

definition hypot :: "real \<Rightarrow> real \<Rightarrow> real" where
  "hypot a b = sqrt (a\<^sup>2 + b\<^sup>2)"

definition prepare_features :: "PredictionRequest \<Rightarrow> http_exception + real list" where
  "prepare_features request =
     (case strptime_ymd (date request) of
        Inl e \<Rightarrow> Inl (HTTPException 400 ''Invalid date format. Use YYYY-MM-DD'')
      | Inr date_obj \<Rightarrow>
          let dayofweek = weekday date_obj;
              month = datetime.month date_obj;
              dayofyear = tm_yday date_obj;
              temp_range = temp request - tmin request;
              heat_index = temp request + 0.5 * tavg request;
              is_peak = (if 10 \<le> hour request \<and> hour request \<le> 17 then 1 else 0);
              is_weekend = (if dayofweek \<in> set [5, 6] then 1 else 0);
              dist_center = hypot (lat request - 12.9716) (lon request - 77.5946);
              hour_sin = sin (2 * pi * real_of_int (hour request) / 24);
              hour_cos = cos (2 * pi * real_of_int (hour request) / 24);
              month_sin = sin (2 * pi * real month / 12);
              month_cos = cos (2 * pi * real month / 12);
              temp_roll3 = (case temp_roll3 request of Some v \<Rightarrow> v | None \<Rightarrow> temp request);
              temp_roll7 = (case temp_roll7 request of Some v \<Rightarrow> v | None \<Rightarrow> temp request);
              tavg_roll3 = (case tavg_roll3 request of Some v \<Rightarrow> v | None \<Rightarrow> tavg request);
              tavg_roll7 = (case tavg_roll7 request of Some v \<Rightarrow> v | None \<Rightarrow> tavg request)
          in Inr [temp request, tavg request, tmin request, prcp request,
                  temp_roll3, temp_roll7, tavg_roll3, tavg_roll7,
                  temp_range, heat_index, is_peak, is_weekend,
                  dist_center, hour_sin, hour_cos, month_sin, month_cos])"

subsection \<open>The predict operation (inference/main.py, predict_risk)\<close>

text \<open>
  The module's globals \<open>model\<close>, \<open>feature_list\<close>, \<open>threshold\<close> and \<open>scaler\<close>, each
  \<open>None\<close> until loaded. The classifier and the scaler are library objects: the model
  is given by what \<open>predict_proba(features)[0, 1]\<close> returns, the scaler by its
  \<open>transform\<close>; either may raise, which is the left summand with the exception's text.
\<close>

record globals =
  model :: "(real list \<Rightarrow> string + real) option"
  feature_list :: "string list option"
  threshold :: "real option"
  scaler :: "(real list \<Rightarrow> string + real list) option"

text \<open>
  What the body of the \<open>try\<close> block raises: an HTTPException, or another exception
  given by its text.
\<close>

datatype raised = Http http_exception | Other string

text \<open>
  \<open>str(e)\<close> of an HTTPException is defined by the web framework; it is the parameter
  \<open>str_http\<close> of the model.
\<close>

definition str_exc :: "(http_exception \<Rightarrow> string) \<Rightarrow> raised \<Rightarrow> string" where
  "str_exc str_http e = (case e of Http h \<Rightarrow> str_http h | Other s \<Rightarrow> s)"

text \<open>
  The body of the \<open>try\<close> block. The response model requires a risk score in [0, 1], a
  threshold that is a number and a feature count; \<open>len(None)\<close> is a TypeError.
\<close>

definition predict_body :: "globals \<Rightarrow> (real list \<Rightarrow> string + real) \<Rightarrow> PredictionRequest
    \<Rightarrow> raised + PredictionResponse" where
  "predict_body g clf request =
     (case prepare_features request of
        Inl h \<Rightarrow> Inl (Http h)
      | Inr features \<Rightarrow>
          (case (case scaler g of None \<Rightarrow> Inr features | Some sc \<Rightarrow> sc features) of
             Inl s \<Rightarrow> Inl (Other s)
           | Inr features' \<Rightarrow>
               (case clf features' of
                  Inl s \<Rightarrow> Inl (Other s)
                | Inr proba \<Rightarrow>
                    let risk_score = proba; risk_level = get_risk_level risk_score in
                    (case feature_list g of
                       None \<Rightarrow> Inl (Other ''object of type NoneType has no len()'')
                     | Some fl \<Rightarrow>
                         (case threshold g of
                            None \<Rightarrow> Inl (Other ''validation error for PredictionResponse'')
                          | Some th \<Rightarrow>
                              if 0 \<le> risk_score \<and> risk_score \<le> 1 then
                                Inr \<lparr>risk_score = risk_score, risk_level = risk_level,
                                     threshold = th, features_used = length fl\<rparr>
                              else Inl (Other ''validation error for PredictionResponse''))))))"

definition predict_risk :: "(http_exception \<Rightarrow> string) \<Rightarrow> globals \<Rightarrow> PredictionRequest
    \<Rightarrow> http_exception + PredictionResponse" where
  "predict_risk str_http g request =
     (case model g of
        None \<Rightarrow> Inl (HTTPException 500 ''Model not loaded'')
      | Some clf \<Rightarrow>
          (case predict_body g clf request of
             Inr response \<Rightarrow> Inr response
           | Inl e \<Rightarrow> Inl (HTTPException 500 (''Prediction error: '' @ str_exc str_http e))))"

subsection \<open>Rolling means (pandas \<open>rolling(window, min_periods=1).mean()\<close>)\<close>

text \<open>
  pandas moves a window over the series and keeps the sum of the observations in the
  window: the observation that leaves the window is subtracted, the one that enters is
  added, and the mean is the sum over the number of observations in the window. With
  \<open>min_periods=1\<close> every position has a value. \<open>win\<close> holds the observations of
  the window, oldest first.
\<close>

fun remove_oldest :: "real list \<Rightarrow> real \<Rightarrow> real list \<times> real" where
  "remove_oldest [] sum_x = ([], sum_x)"
| "remove_oldest (y # ys) sum_x = (ys, sum_x - y)"

fun roll_mean_from :: "nat \<Rightarrow> real list \<Rightarrow> real \<Rightarrow> real list \<Rightarrow> real list" where
  "roll_mean_from W win sum_x [] = []"
| "roll_mean_from W win sum_x (x # xs) =
     (case (if W \<le> length win then remove_oldest win sum_x else (win, sum_x)) of
        (win1, sum1) \<Rightarrow>
          let win2 = win1 @ [x];
              sum2 = sum1 + x
          in sum2 / real (length win2) # roll_mean_from W win2 sum2 xs)"

definition roll_mean :: "nat \<Rightarrow> real list \<Rightarrow> real list" where
  "roll_mean W xs = roll_mean_from W [] 0 xs"

text \<open>pandas refuses a window smaller than \<open>min_periods\<close>.\<close>

definition rolling_mean :: "nat \<Rightarrow> real list \<Rightarrow> py_error + real list" where
  "rolling_mean W xs =
     (if W < 1 then Inl (ValueError ''min_periods 1 must be <= window'')
      else Inr (roll_mean W xs))"

text \<open>
  The trailing window mean in the words of the specification: the mean of the
  observations at the positions from \<open>max(0, i - W + 1)\<close> to \<open>i\<close>.
\<close>

definition window_lo :: "nat \<Rightarrow> nat \<Rightarrow> nat" where
  "window_lo W i = nat (max 0 (int i - int W + 1))"

definition window_mean :: "nat \<Rightarrow> real list \<Rightarrow> nat \<Rightarrow> real" where
  "window_mean W xs i =
     sum_list (map (\<lambda>j. xs ! j) [window_lo W i..<Suc i]) / real (Suc i - window_lo W i)"

text \<open>The window after the prefix \<open>ps\<close> has been read: its last \<open>W\<close> observations.\<close>

definition win_of :: "nat \<Rightarrow> real list \<Rightarrow> real list" where
  "win_of W ps = drop (length ps - W) ps"

subsection \<open>Daily weather and its rolling averages (ML/data_preparation.py)\<close>

record weather_day =
  time :: datetime
  temp :: real
  tavg :: real
  tmin :: real
  prcp :: real

record weather_day_rolled = weather_day +
  temp_roll3 :: real
  tavg_roll3 :: real
  tmin_roll3 :: real

text \<open>
  \<open>compute_rolling_averages\<close>: the frame is ordered by time and renumbered, so the
  three rolling columns are assigned position by position. The window 3 passes pandas'
  check against \<open>min_periods\<close>.
\<close>

definition compute_rolling_averages :: "weather_day list \<Rightarrow> weather_day_rolled list" where
  "compute_rolling_averages df0 =
     (let df = sort_key (\<lambda>r. dt_key (time r)) df0;
          c1 = roll_mean 3 (map weather_day.temp df);
          c2 = roll_mean 3 (map weather_day.tavg df);
          c3 = roll_mean 3 (map weather_day.tmin df)
      in map (\<lambda>i. weather_day.extend (df ! i)
                  \<lparr>temp_roll3 = c1 ! i, tavg_roll3 = c2 ! i, tmin_roll3 = c3 ! i\<rparr>)
           [0..<length df])"

subsection \<open>Spatial joins (geopandas \<open>sjoin_nearest\<close> and \<open>sjoin\<close>)\<close>







subsection \<open>Backward asof merge (pandas \<open>merge_asof(..., direction='backward')\<close>)\<close>





subsection \<open>The feature join of ML/prep_data.py (preprocess)\<close>



record 't weather_obs =
  timestamp :: 't
  lat :: real
  lon :: real
  temp :: real
  humidity :: real
  wind :: real

record 't incident =
  timestamp :: 't
  lat :: real
  lon :: real
  type :: string

record weather_hourly =
  weather_hour :: datetime
  temp_roll3 :: real
  humidity_roll3 :: real
  wind_roll3 :: real

record 'c feature =
  lat :: real
  lon :: real
  timestamp :: datetime
  type :: string
  temp :: "real option"
  humidity :: "real option"
  wind :: "real option"
  temp_roll3 :: "real option"
  humidity_roll3 :: "real option"
  wind_roll3 :: "real option"
  hour :: nat
  dayofweek :: nat
  landcover_cols :: "'c option"












subsection \<open>The joins of ML/data_preparation.py (spatial_temporal_join)\<close>

record incident_report =
  timestamp :: datetime
  lat :: real
  lon :: real
  incident_type :: string
  severity :: nat

record landcover_cell =
  landcover_type :: string
  urban_density :: real
  vegetation_cover :: real
  water_bodies :: real






subsection \<open>Training features (ML/improved_model.py)\<close>

text \<open>
  A row of the feature table read from \<open>features.csv\<close>; \<open>ix\<close> is the row's label in
  the frame's index.
\<close>

record csv_row =
  ix :: nat
  timestamp :: datetime
  lat :: real
  lon :: real
  incident_type :: string
  temp :: real
  tavg :: real
  tmin :: real
  prcp :: real

record labelled_row = csv_row +
  hazard :: nat

definition heat_related :: "string list" where
  "heat_related = [''heat_stroke'', ''dehydration'', ''fainting'', ''heat_exhaustion'']"

definition load_and_label :: "csv_row list \<Rightarrow> labelled_row list" where
  "load_and_label df =
     map (\<lambda>r. csv_row.extend r
            \<lparr>hazard = (if incident_type r \<in> set heat_related then 1 else 0)\<rparr>) df"

text \<open>The rolling columns may hold NaN, which is \<open>None\<close>.\<close>

record rolled_row = labelled_row +
  temp_roll3 :: "real option"
  tavg_roll3 :: "real option"
  temp_roll7 :: "real option"
  tavg_roll7 :: "real option"

text \<open>
  \<open>df.groupby(["lat", "lon"])[col].rolling(w, min_periods=1).mean()\<close> followed by
  \<open>reset_index(level=group_cols, drop=True)\<close>: the groups come in the order of their
  keys, each group keeps the frame's row order, and every value carries the label of its
  row. The result is a series of labelled values.
\<close>

definition group_key :: "'a csv_row_scheme \<Rightarrow> real \<times> real" where
  "group_key r = (lat r, lon r)"

definition groupby_rolling_mean ::
  "nat \<Rightarrow> ('a csv_row_scheme \<Rightarrow> real) \<Rightarrow> 'a csv_row_scheme list \<Rightarrow> (nat \<times> real) list" where
  "groupby_rolling_mean w col df =
     concat (map (\<lambda>k. let g = filter (\<lambda>r. group_key r = k) df
                      in zip (map ix g) (roll_mean w (map col g)))
               (sort (remdups (map group_key df))))"

text \<open>
  \<open>df[name] = series\<close> aligns the series with the frame on the row labels; a row
  whose label the series lacks gets NaN.
\<close>

definition add_rolling_features :: "labelled_row list \<Rightarrow> rolled_row list" where
  "add_rolling_features df0 =
     (let df = sort_key (\<lambda>r. (lat r, lon r, dt_key (timestamp r))) df0;
          t3 = groupby_rolling_mean 3 csv_row.temp df;
          a3 = groupby_rolling_mean 3 csv_row.tavg df;
          t7 = groupby_rolling_mean 7 csv_row.temp df;
          a7 = groupby_rolling_mean 7 csv_row.tavg df
      in map (\<lambda>r. labelled_row.extend r
                \<lparr>temp_roll3 = map_of t3 (ix r), tavg_roll3 = map_of a3 (ix r),
                 temp_roll7 = map_of t7 (ix r), tavg_roll7 = map_of a7 (ix r)\<rparr>) df)"

record engineered_row = rolled_row +
  hour :: nat
  dayofweek :: nat
  month :: nat
  temp_range :: real
  heat_index :: real
  is_peak :: nat
  is_weekend :: nat
  dist_center :: real
  hour_sin :: real
  hour_cos :: real
  month_sin :: real
  month_cos :: real

definition add_engineered_features_row :: "rolled_row \<Rightarrow> engineered_row" where
  "add_engineered_features_row r =
     (let h = datetime.hour (timestamp r);
          dw = weekday (timestamp r);
          mo = datetime.month (timestamp r)
      in rolled_row.extend r
           \<lparr>hour = h, dayofweek = dw, month = mo,
            temp_range = csv_row.temp r - csv_row.tmin r,
            heat_index = csv_row.temp r + 0.5 * csv_row.tavg r,
            is_peak = (if 10 \<le> h \<and> h \<le> 17 then 1 else 0),
            is_weekend = (if dw \<in> set [5, 6] then 1 else 0),
            dist_center = hypot (lat r - 12.9716) (lon r - 77.5946),
            hour_sin = sin (2 * pi * real h / 24),
            hour_cos = cos (2 * pi * real h / 24),
            month_sin = sin (2 * pi * real mo / 12),
            month_cos = cos (2 * pi * real mo / 12)\<rparr>)"

definition add_engineered_features :: "rolled_row list \<Rightarrow> engineered_row list" where
  "add_engineered_features df = map add_engineered_features_row df"

definition feature_cols :: "string list" where
  "feature_cols =
     [''temp'', ''tavg'', ''tmin'', ''prcp'',
      ''temp_roll3'', ''temp_roll7'', ''tavg_roll3'', ''tavg_roll7'',
      ''temp_range'', ''heat_index'', ''is_peak'', ''is_weekend'',
      ''dist_center'', ''hour_sin'', ''hour_cos'', ''month_sin'', ''month_cos'']"

text \<open>The cells of a row of \<open>X = df[feature_cols]\<close>, in the order of \<open>feature_cols\<close>.\<close>

definition X_row :: "engineered_row \<Rightarrow> real option list" where
  "X_row r =
     [Some (csv_row.temp r), Some (csv_row.tavg r), Some (csv_row.tmin r), Some (csv_row.prcp r),
      rolled_row.temp_roll3 r, temp_roll7 r, rolled_row.tavg_roll3 r, tavg_roll7 r,
      Some (temp_range r), Some (heat_index r),
      Some (real (is_peak r)), Some (real (is_weekend r)),
      Some (dist_center r), Some (hour_sin r), Some (hour_cos r),
      Some (month_sin r), Some (month_cos r)]"

text \<open>
  \<open>prepare_features\<close> of the training script. The columns temp, tavg and tmin hold
  numbers here, so \<open>dropna\<close> keeps every row.
\<close>

definition improved_model_prepare_features ::
  "labelled_row list \<Rightarrow> real option list list \<times> nat list \<times> string list" where
  "improved_model_prepare_features df0 =
     (let df1 = add_rolling_features df0;
          df2 = add_engineered_features df1
      in (map X_row df2, map hazard df2, feature_cols))"

subsection \<open>Example data\<close>

text \<open>A labelled feature table with two locations, and a table with one row.\<close>

definition example_table :: "labelled_row list" where
  "example_table =
     [\<lparr>ix = 0, timestamp = \<lparr>year = 2022, month = 6, day = 2, hour = 14, minute = 0, second = 0\<rparr>,
       lat = 1, lon = 1, incident_type = ''heat_stroke'',
       temp = 30, tavg = 24, tmin = 20, prcp = 0, hazard = 1\<rparr>,
      \<lparr>ix = 1, timestamp = \<lparr>year = 2022, month = 6, day = 1, hour = 9, minute = 0, second = 0\<rparr>,
       lat = 2, lon = 2, incident_type = ''fire'',
       temp = 10, tavg = 8, tmin = 5, prcp = 1, hazard = 0\<rparr>,
      \<lparr>ix = 2, timestamp = \<lparr>year = 2022, month = 6, day = 1, hour = 12, minute = 0, second = 0\<rparr>,
       lat = 1, lon = 1, incident_type = ''fainting'',
       temp = 20, tavg = 16, tmin = 12, prcp = 0, hazard = 1\<rparr>]"

definition example_row :: labelled_row where
  "example_row =
     \<lparr>ix = 0, timestamp = \<lparr>year = 2024, month = 6, day = 15, hour = 14, minute = 0, second = 0\<rparr>,
      lat = 13, lon = 77, incident_type = ''heat_stroke'',
      temp = 39, tavg = 30, tmin = 26, prcp = 0, hazard = 1\<rparr>"

definition example_request :: PredictionRequest where
  "example_request =
     \<lparr>PredictionRequest.lat = 13, lon = 77, date = ''2024-06-15'', hour = 14,
      temp = 39, tavg = 30, tmin = 26, prcp = 0,
      temp_roll3 = Some 39, temp_roll7 = Some 39, tavg_roll3 = Some 30, tavg_roll7 = Some 30\<rparr>"









section \<open>Properties\<close>

subsection \<open>Risk tiers\<close>

text \<open>
  C7. The tier of a risk score is LOW exactly below 0.3, MEDIUM exactly on [0.3, 0.6),
  HIGH exactly on [0.6, 0.8) and EXTREME exactly from 0.8 on; the boundary scores
  0.29, 0.30, 0.59999, 0.6 and 0.8 fall into LOW, MEDIUM, MEDIUM, HIGH and EXTREME.
\<close>

theorem get_risk_level_tiers:
  "(get_risk_level s = ''LOW'') = (s < 0.3) \<and>
   (get_risk_level s = ''MEDIUM'') = (0.3 \<le> s \<and> s < 0.6) \<and>
   (get_risk_level s = ''HIGH'') = (0.6 \<le> s \<and> s < 0.8) \<and>
   (get_risk_level s = ''EXTREME'') = (0.8 \<le> s) \<and>
   get_risk_level 0.29 = ''LOW'' \<and>
   get_risk_level 0.30 = ''MEDIUM'' \<and>
   get_risk_level 0.59999 = ''MEDIUM'' \<and>
   get_risk_level 0.6 = ''HIGH'' \<and>
   get_risk_level 0.8 = ''EXTREME''"
  by (simp add: get_risk_level_def)

subsection \<open>Threshold selection\<close>



lemma bool_index_map:
  "length a = length t \<Longrightarrow> bool_index a (map P t) = Inr (map fst (filter (\<lambda>z. P (snd z)) (zip a t)))"
proof -
  assume l: "length a = length t"
  have "map fst (filter snd (zip a (map P t))) = map fst (filter (\<lambda>z. P (snd z)) (zip a t))"
    using l by (induction a t rule: list_induct2) auto
  with l show ?thesis by (simp add: bool_index_def)
qed





text \<open>
  C10. When no threshold of the precision-recall curve lies in [0.05, 0.95], threshold
  selection returns the default threshold 0.5 with F1 reported as 0.0; it does not fail.
\<close>

theorem find_best_threshold_default:
  assumes "precision_recall_curve y_true y_scores = (p, r, t)"
    and "\<not> (\<exists>x \<in> set t. in_band x)"
  shows "find_best_threshold precision_recall_curve y_true y_scores = Inr (0.5, 0.0)"
  using assms by (simp add: find_best_threshold_def Let_def list_ex_iff)


theorem find_best_threshold_default_witness:
  "find_best_threshold (\<lambda>(yt :: nat list) (ys :: real list). ([1/2, 1, 1], [1, 1, 0], [1/100, 99/100]))
       [0, 1] [1/100, 99/100]
     = Inr (0.5, 0.0)"
  using find_best_threshold_default[of "\<lambda>(yt :: nat list) (ys :: real list). ([1/2, 1, 1], [1, 1, 0], [1/100, 99/100])"
      "[0, 1]" "[1/100, 99/100]" "[1/2, 1, 1]" "[1, 1, 0]" "[1/100, 99/100]"]
  by (simp add: in_band_def)

subsection \<open>Rolling means\<close>

lemma remove_oldest_eq: "win \<noteq> [] \<Longrightarrow> remove_oldest win s = (tl win, s - hd win)"
  by (cases win) simp_all

lemma sum_list_tl: "win \<noteq> [] \<Longrightarrow> sum_list (tl win) = sum_list win - hd (win :: real list)"
  by (cases win) simp_all

lemma length_win_of: "length (win_of W ps) = min W (length ps)"
  by (simp add: win_of_def)

lemma win_of_step:
  assumes "1 \<le> W"
  shows "(if W \<le> length (win_of W ps) then tl (win_of W ps) else win_of W ps) @ [x]
           = win_of W (ps @ [x])"
proof (cases "W \<le> length ps")
  case True
  then have "W \<le> length (win_of W ps)" by (simp add: length_win_of)
  moreover have "tl (win_of W ps) = drop (Suc (length ps - W)) ps"
    by (simp add: win_of_def drop_Suc tl_drop)
  moreover have "Suc (length ps) - W = Suc (length ps - W)" using True by simp
  ultimately show ?thesis using True assms by (simp add: win_of_def)
next
  case False
  then have "\<not> W \<le> length (win_of W ps)" by (simp add: length_win_of)
  then show ?thesis using False by (simp add: win_of_def)
qed

lemma window_lo_eq: "window_lo W i = Suc i - W"
  by (simp add: window_lo_def)

lemma map_nth_upt_drop_take:
  "j \<le> length ys \<Longrightarrow> map (\<lambda>k. ys ! k) [i..<j] = drop i (take j ys)"
  by (rule nth_equalityI) (simp_all add: min_def)

lemma window_mean_alt:
  assumes "i < length ys"
  shows "window_mean W ys i = sum_list (win_of W (take (Suc i) ys)) / real (length (win_of W (take (Suc i) ys)))"
proof -
  have "map (\<lambda>j. ys ! j) [Suc i - W..<Suc i] = drop (Suc i - W) (take (Suc i) ys)"
    using assms by (simp add: map_nth_upt_drop_take del: upt_Suc)
  moreover have "length (take (Suc i) ys) = Suc i" using assms by simp
  ultimately show ?thesis
    by (simp add: window_mean_def window_lo_eq win_of_def)
qed

lemma roll_mean_from_window:
  assumes "1 \<le> W"
  shows "roll_mean_from W (win_of W ps) (sum_list (win_of W ps)) xs
           = map (\<lambda>i. window_mean W (ps @ xs) (length ps + i)) [0..<length xs]"
proof (induction xs arbitrary: ps)
  case Nil
  show ?case by simp
next
  case (Cons x xs)
  let ?win = "win_of W ps"
  let ?win2 = "win_of W (ps @ [x])"
  have step: "(if W \<le> length ?win then remove_oldest ?win (sum_list ?win) else (?win, sum_list ?win))
      = (if W \<le> length ?win then tl ?win else ?win,
         sum_list (if W \<le> length ?win then tl ?win else ?win))"
  proof (cases "W \<le> length ?win")
    case True
    with assms have "0 < length ?win" by linarith
    then have "?win \<noteq> []" by (simp del: length_greater_0_conv add: length_greater_0_conv[symmetric])
    then show ?thesis using True by (simp add: remove_oldest_eq sum_list_tl)
  next
    case False then show ?thesis by simp
  qed
  have w2: "(if W \<le> length ?win then tl ?win else ?win) @ [x] = ?win2"
    by (rule win_of_step[OF assms])
  have s2: "sum_list (if W \<le> length ?win then tl ?win else ?win) + x = sum_list ?win2"
    unfolding w2[symmetric] by simp
  have hd: "window_mean W (ps @ x # xs) (length ps) = sum_list ?win2 / real (length ?win2)"
    using window_mean_alt[of "length ps" "ps @ x # xs" W] by simp
  have tl: "roll_mean_from W ?win2 (sum_list ?win2) xs
        = map (\<lambda>i. window_mean W (ps @ x # xs) (length ps + Suc i)) [0..<length xs]"
    using Cons.IH[of "ps @ [x]"] by simp
  have "roll_mean_from W ?win (sum_list ?win) (x # xs)
      = sum_list ?win2 / real (length ?win2) # roll_mean_from W ?win2 (sum_list ?win2) xs"
    by (simp only: roll_mean_from.simps step prod.case Let_def w2 s2)
  also have "\<dots> = map (\<lambda>i. window_mean W (ps @ x # xs) (length ps + i)) [0..<length (x # xs)]"
    using hd tl by (simp add: map_upt_Suc del: upt_Suc)
  finally show ?case .
qed

lemma roll_mean_window:
  "1 \<le> W \<Longrightarrow> roll_mean W xs = map (window_mean W xs) [0..<length xs]"
  using roll_mean_from_window[of W "[]" xs] by (simp add: roll_mean_def win_of_def)

lemma length_roll_mean_from: "length (roll_mean_from W win s xs) = length xs"
  by (induction xs arbitrary: win s) (simp_all add: Let_def split: prod.splits)

lemma length_roll_mean: "length (roll_mean W xs) = length xs"
  by (simp add: roll_mean_def length_roll_mean_from)

lemma window_mean_0: "1 \<le> W \<Longrightarrow> window_mean W xs 0 = xs ! 0"
  by (simp add: window_mean_def window_lo_eq)

lemma window_mean_W1: "window_mean (Suc 0) xs i = xs ! i"
  by (simp add: window_mean_def window_lo_eq)

text \<open>
  C3. For a window size of at least 1 the rolling mean of a sequence of observations is
  a sequence of the same length whose entry at every position \<open>i\<close> is the arithmetic
  mean of the observations at the positions from \<open>max(0, i - W + 1)\<close> to \<open>i\<close>. The
  first entry is the first observation, a single observation yields itself, and with
  window 1 the output is the input.
\<close>

theorem rolling_mean_trailing_window:
  assumes "1 \<le> W"
  shows "\<exists>out. rolling_mean W xs = Inr out \<and> length out = length xs
           \<and> (\<forall>i<length xs. out ! i = window_mean W xs i)
           \<and> (xs \<noteq> [] \<longrightarrow> out ! 0 = xs ! 0)
           \<and> (\<forall>x. xs = [x] \<longrightarrow> out = [x])
           \<and> (W = 1 \<longrightarrow> out = xs)"
proof -
  let ?out = "roll_mean W xs"
  have r: "rolling_mean W xs = Inr ?out" using assms by (simp add: rolling_mean_def)
  have eq: "?out = map (window_mean W xs) [0..<length xs]" by (rule roll_mean_window[OF assms])
  have l: "length ?out = length xs" by (rule length_roll_mean)
  have n: "\<forall>i<length xs. ?out ! i = window_mean W xs i" by (simp add: eq)
  have z: "xs \<noteq> [] \<longrightarrow> ?out ! 0 = xs ! 0"
  proof
    assume "xs \<noteq> []"
    then have p: "0 < length xs" by simp
    with n have "?out ! 0 = window_mean W xs 0" by blast
    with assms show "?out ! 0 = xs ! 0" by (simp only: window_mean_0)
  qed
  have s: "\<forall>x. xs = [x] \<longrightarrow> ?out = [x]"
  proof (intro allI impI)
    fix x assume "xs = [x]"
    with eq assms show "?out = [x]" by (simp add: window_mean_0)
  qed
  have w: "W = 1 \<longrightarrow> ?out = xs"
  proof
    assume "W = 1"
    with eq have "?out = map (\<lambda>i. xs ! i) [0..<length xs]" by (simp add: window_mean_W1)
    then show "?out = xs" by (simp add: map_nth)
  qed
  from r l n z s w show ?thesis by blast
qed

theorem rolling_mean_trailing_window_witness:
  "(1::nat) \<le> 3 \<and> rolling_mean 3 [1, 2, 3, 6] = Inr [1, 3/2, 2, 11/3]
   \<and> window_mean 3 [1, 2, 3, 6] 3 = 11/3 \<and> window_mean 3 [1, 2, 3, 6] 0 = 1"
proof -
  have ev: "rolling_mean 3 [1, 2, 3, 6] = Inr [1, 3/2, 2, 11/3]"
    by (simp add: rolling_mean_def roll_mean_def)
  from rolling_mean_trailing_window[of 3 "[1, 2, 3, 6]"]
  obtain out where out: "rolling_mean 3 [1, 2, 3, 6] = Inr out"
    "\<forall>i<length [1, 2, 3, 6 :: real]. out ! i = window_mean 3 [1, 2, 3, 6] i"
    by auto
  from out(1) ev have o: "out = [1, 3/2, 2, 11/3]" by simp
  from out(2)[rule_format, of 3] o have "window_mean 3 [1, 2, 3, 6] 3 = 11/3" by simp
  moreover from out(2)[rule_format, of 0] o have "window_mean 3 [1, 2, 3, 6] 0 = 1" by simp
  ultimately show ?thesis using ev by simp
qed

lemma compute_rolling_averages_columns:
  assumes "i < length df"
  shows "length (compute_rolling_averages df) = length df"
    and "weather_day.truncate (compute_rolling_averages df ! i) = sort_key (\<lambda>r. dt_key (time r)) df ! i"
    and "weather_day_rolled.temp_roll3 (compute_rolling_averages df ! i)
           = window_mean 3 (map weather_day.temp (sort_key (\<lambda>r. dt_key (time r)) df)) i"
    and "weather_day_rolled.tavg_roll3 (compute_rolling_averages df ! i)
           = window_mean 3 (map weather_day.tavg (sort_key (\<lambda>r. dt_key (time r)) df)) i"
    and "tmin_roll3 (compute_rolling_averages df ! i)
           = window_mean 3 (map weather_day.tmin (sort_key (\<lambda>r. dt_key (time r)) df)) i"
  using assms
  by (simp_all add: compute_rolling_averages_def Let_def roll_mean_window weather_day.defs)


subsection \<open>The predict operation\<close>

lemma predict_risk_model_not_loaded:
  "model g = None \<Longrightarrow> predict_risk str_http g request = Inl (HTTPException 500 ''Model not loaded'')"
  by (simp add: predict_risk_def)

text \<open>
  C2. With a model loaded, a request whose date string \<open>strptime\<close> rejects does not
  get the status 400 that \<open>prepare_features\<close> raises: the handler of
  \<open>predict_risk\<close> catches that exception with every other one and answers with status
  500, the text of the caught exception behind "Prediction error: ". (Without a model
  the answer is status 500, "Model not loaded".)
\<close>

theorem predict_risk_invalid_date:
  assumes "model g = Some clf" and "strptime_ymd (date request) = Inl e"
  shows "predict_risk str_http g request
           = Inl (HTTPException 500
                (''Prediction error: '' @ str_http (HTTPException 400 ''Invalid date format. Use YYYY-MM-DD'')))"
  using assms by (simp add: predict_risk_def predict_body_def prepare_features_def str_exc_def)

lemma bad_date: "strptime_ymd ''15/06/2024'' = Inl (ValueError ''time data does not match format'')"
  by code_simp

theorem predict_risk_invalid_date_witness:
  "predict_risk (\<lambda>h. ''400: '' @ detail h)
      \<lparr>model = Some (\<lambda>x. Inr (1/2)), feature_list = Some feature_cols, threshold = Some (2/5), scaler = None\<rparr>
      \<lparr>PredictionRequest.lat = 12.9716, lon = 77.5946, date = ''15/06/2024'', hour = 14, temp = 38.5, tavg = 30,
        tmin = 25, prcp = 0, temp_roll3 = None, temp_roll7 = None, tavg_roll3 = None, tavg_roll7 = None\<rparr>
    = Inl (HTTPException 500 ''Prediction error: 400: Invalid date format. Use YYYY-MM-DD'')"
  using predict_risk_invalid_date[of
      "\<lparr>model = Some (\<lambda>x. Inr (1/2)), feature_list = Some feature_cols, threshold = Some (2/5), scaler = None\<rparr>"
      "\<lambda>x. Inr (1/2)"
      "\<lparr>PredictionRequest.lat = 12.9716, lon = 77.5946, date = ''15/06/2024'', hour = 14, temp = 38.5, tavg = 30,
        tmin = 25, prcp = 0, temp_roll3 = None, temp_roll7 = None, tavg_roll3 = None, tavg_roll7 = None\<rparr>"
      "ValueError ''time data does not match format''" "\<lambda>h. ''400: '' @ detail h"]
    bad_date
  by simp

subsection \<open>Feature reconstruction against training\<close>

lemma weekday_date: "weekday (d\<lparr>datetime.hour := h, minute := mi, second := s\<rparr>) = weekday d"
  by (simp add: weekday_def)

lemma inference_matches_row:
  assumes parse: "strptime_ymd (date request) = Inr ((csv_row.timestamp r)\<lparr>datetime.hour := 0, minute := 0, second := 0\<rparr>)"
    and hr: "PredictionRequest.hour request = int (datetime.hour (csv_row.timestamp r))"
    and "PredictionRequest.lat request = csv_row.lat r" "PredictionRequest.lon request = csv_row.lon r"
    and "PredictionRequest.temp request = csv_row.temp r" "PredictionRequest.tavg request = csv_row.tavg r"
    and "PredictionRequest.tmin request = csv_row.tmin r" "PredictionRequest.prcp request = csv_row.prcp r"
    and "rolled_row.temp_roll3 r = Some t3" "PredictionRequest.temp_roll3 request = Some t3"
    and "rolled_row.temp_roll7 r = Some t7" "PredictionRequest.temp_roll7 request = Some t7"
    and "rolled_row.tavg_roll3 r = Some a3" "PredictionRequest.tavg_roll3 request = Some a3"
    and "rolled_row.tavg_roll7 r = Some a7" "PredictionRequest.tavg_roll7 request = Some a7"
  shows "\<exists>v. prepare_features request = Inr v \<and> map Some v = X_row (add_engineered_features_row r)
            \<and> length v = length feature_cols"
  using assms
  by (simp add: prepare_features_def X_row_def add_engineered_features_row_def Let_def
      weekday_date rolled_row.defs feature_cols_def)

lemma length_add_rolling_features: "length (add_rolling_features df) = length df"
  by (simp add: add_rolling_features_def Let_def)

text \<open>
  C1. Take any row of the training frame after the rolling columns have been added. A
  request whose date string parses to the row's calendar date, whose hour is the row's
  hour, whose lat, lon, temp, tavg, tmin and prcp are the row's, and which supplies the
  row's four rolling values, is turned by the serving code into exactly the feature
  vector that training builds for that row: the same 17 entries in the order of the
  training feature list.
\<close>

theorem prepare_features_reproduces_training_row:
  assumes i: "i < length df" and r: "r = add_rolling_features df ! i"
    and parse: "strptime_ymd (date request) = Inr ((csv_row.timestamp r)\<lparr>datetime.hour := 0, minute := 0, second := 0\<rparr>)"
    and hr: "PredictionRequest.hour request = int (datetime.hour (csv_row.timestamp r))"
    and geo: "PredictionRequest.lat request = csv_row.lat r" "PredictionRequest.lon request = csv_row.lon r"
    and raw: "PredictionRequest.temp request = csv_row.temp r" "PredictionRequest.tavg request = csv_row.tavg r"
      "PredictionRequest.tmin request = csv_row.tmin r" "PredictionRequest.prcp request = csv_row.prcp r"
    and rolls: "rolled_row.temp_roll3 r = Some t3" "PredictionRequest.temp_roll3 request = Some t3"
      "rolled_row.temp_roll7 r = Some t7" "PredictionRequest.temp_roll7 request = Some t7"
      "rolled_row.tavg_roll3 r = Some a3" "PredictionRequest.tavg_roll3 request = Some a3"
      "rolled_row.tavg_roll7 r = Some a7" "PredictionRequest.tavg_roll7 request = Some a7"
  shows "\<exists>v. prepare_features request = Inr v
            \<and> map Some v = fst (improved_model_prepare_features df) ! i
            \<and> length v = length (snd (snd (improved_model_prepare_features df)))
            \<and> length v = 17"
proof -
  from inference_matches_row[OF parse hr geo raw rolls]
  obtain v where v: "prepare_features request = Inr v"
    "map Some v = X_row (add_engineered_features_row r)" "length v = length feature_cols"
    by blast
  have "fst (improved_model_prepare_features df) ! i = X_row (add_engineered_features_row r)"
    using i r by (simp add: improved_model_prepare_features_def Let_def
        add_engineered_features_def length_add_rolling_features)
  moreover have "snd (snd (improved_model_prepare_features df)) = feature_cols"
    by (simp add: improved_model_prepare_features_def Let_def)
  moreover have "length feature_cols = 17" by (simp add: feature_cols_def)
  ultimately show ?thesis using v by simp
qed


lemma ex_arf: "add_rolling_features [example_row] =
   [labelled_row.extend example_row \<lparr>temp_roll3 = Some 39, tavg_roll3 = Some 30, temp_roll7 = Some 39, tavg_roll7 = Some 30\<rparr>]"
  by (simp add: add_rolling_features_def Let_def groupby_rolling_mean_def roll_mean_def example_row_def group_key_def)

lemma ex_date: "strptime_ymd ''2024-06-15'' = Inr \<lparr>year = 2024, month = 6, day = 15, hour = 0, minute = 0, second = 0\<rparr>"
  by code_simp

lemma ex_weekday: "weekday \<lparr>year = 2024, month = 6, day = 15, hour = 0, minute = 0, second = 0\<rparr> = 5"
  by (simp add: weekday_def ymd2ord_def days_before_year_def days_before_month_def is_leap_def)

lemma ex_pf: "\<exists>rest. prepare_features example_request = Inr ([39, 30, 26, 0, 39, 39, 30, 30, 13, 54, 1, 1] @ rest)"
  by (simp add: prepare_features_def example_request_def ex_date ex_weekday Let_def)

theorem prepare_features_reproduces_training_row_witness:
  "\<exists>v. prepare_features example_request = Inr v
      \<and> map Some v = fst (improved_model_prepare_features [example_row]) ! 0
      \<and> length v = 17 \<and> v ! 8 = 13 \<and> v ! 9 = 54 \<and> v ! 10 = 1 \<and> v ! 11 = 1"
proof -
  let ?r = "labelled_row.extend example_row
      \<lparr>temp_roll3 = Some 39, tavg_roll3 = Some 30, temp_roll7 = Some 39, tavg_roll7 = Some 30\<rparr>"
  have r: "?r = add_rolling_features [example_row] ! 0" by (simp add: ex_arf)
  have sel: "csv_row.timestamp ?r = \<lparr>year = 2024, month = 6, day = 15, hour = 14, minute = 0, second = 0\<rparr>"
    "csv_row.lat ?r = 13" "csv_row.lon ?r = 77" "csv_row.temp ?r = 39" "csv_row.tavg ?r = 30"
    "csv_row.tmin ?r = 26" "csv_row.prcp ?r = 0"
    "rolled_row.temp_roll3 ?r = Some 39" "temp_roll7 ?r = Some 39"
    "rolled_row.tavg_roll3 ?r = Some 30" "tavg_roll7 ?r = Some 30"
    by (simp_all add: example_row_def labelled_row.defs csv_row.defs)
  have "\<exists>v. prepare_features example_request = Inr v
            \<and> map Some v = fst (improved_model_prepare_features [example_row]) ! 0
            \<and> length v = length (snd (snd (improved_model_prepare_features [example_row])))
            \<and> length v = 17"
    by (rule prepare_features_reproduces_training_row[where r = ?r and ?t3.0 = 39 and ?t7.0 = 39 and ?a3.0 = 30 and ?a7.0 = 30])
       (simp_all add: r[symmetric] sel example_request_def ex_date)
  then obtain v where v: "prepare_features example_request = Inr v"
    "map Some v = fst (improved_model_prepare_features [example_row]) ! 0" "length v = 17"
    by blast
  from ex_pf v(1) obtain rest where "v = [39, 30, 26, 0, 39, 39, 30, 30, 13, 54, 1, 1] @ rest"
    by auto
  then have "v ! 8 = 13" "v ! 9 = 54" "v ! 10 = 1" "v ! 11 = 1" by simp_all
  with v show ?thesis by blast
qed


subsection \<open>Rolling means per location\<close>

lemma distinct_map_sort_key:
  "distinct (map f xs) \<Longrightarrow> distinct (map f (sort_key k xs))"
  by (simp add: distinct_map)

lemma map_of_concat_chunk:
  assumes "k \<in> set ks"
    and "x \<in> fst ` set (chunk k)"
    and "\<And>k'. k' \<in> set ks \<Longrightarrow> k' \<noteq> k \<Longrightarrow> x \<notin> fst ` set (chunk k')"
  shows "map_of (concat (map chunk ks)) x = map_of (chunk k) x"
  using assms
proof (induction ks)
  case Nil
  then show ?case by simp
next
  case (Cons a ks)
  show ?case
  proof (cases "a = k")
    case True
    from Cons.prems(2) have "x \<in> dom (map_of (chunk k))" by (simp add: dom_map_of_conv_image_fst)
    then obtain v where "map_of (chunk k) x = Some v" by auto
    then show ?thesis using True by (simp add: map_add_def)
  next
    case False
    with Cons.prems(3)[of a] have "x \<notin> fst ` set (chunk a)" by simp
    then have n: "map_of (chunk a) x = None" by (simp add: map_of_eq_None_iff)
    from False Cons.prems(1) have "k \<in> set ks" by simp
    from Cons.IH[OF this Cons.prems(2)] Cons.prems(3)
    have "map_of (concat (map chunk ks)) x = map_of (chunk k) x" by simp
    with n show ?thesis by (simp add: map_add_def)
  qed
qed

lemma map_of_zip_labels:
  assumes "distinct (map f g)" "length vs = length g"
  shows "map (\<lambda>r. map_of (zip (map f g) vs) (f r)) g = map Some vs"
proof (rule nth_equalityI)
  show "length (map (\<lambda>r. map_of (zip (map f g) vs) (f r)) g) = length (map Some vs)"
    using assms(2) by simp
next
  fix i assume "i < length (map (\<lambda>r. map_of (zip (map f g) vs) (f r)) g)"
  then have i: "i < length g" by simp
  have "map_of (zip (map f g) vs) (map f g ! i) = Some (vs ! i)"
    using assms i by (intro map_of_zip_nth) simp_all
  with i assms(2) show "map (\<lambda>r. map_of (zip (map f g) vs) (f r)) g ! i = map Some vs ! i"
    by simp
qed

lemma groupby_rolling_mean_group:
  fixes df :: "'a csv_row_scheme list" and k :: "real \<times> real"
  assumes d: "distinct (map ix df)"
  defines "g \<equiv> filter (\<lambda>r. group_key r = k) df"
  shows "map (\<lambda>r. map_of (groupby_rolling_mean w col df) (ix r)) g = map Some (roll_mean w (map col g))"
proof -
  let ?chunk = "\<lambda>k. let g = filter (\<lambda>r. group_key r = k) df
                     in zip (map ix g) (roll_mean w (map col g))"
  let ?ks = "sort (remdups (map group_key df))"
  have dg: "distinct (map ix g)" unfolding g_def using d by (rule distinct_map_filter)
  have lg: "length (roll_mean w (map col g)) = length g" by (simp add: length_roll_mean)
  have inj: "inj_on ix (set df)" using d by (simp add: distinct_map)
  have look: "map_of (groupby_rolling_mean w col df) (ix r) = map_of (?chunk k) (ix r)"
    if r: "r \<in> set g" for r
  proof -
    have rdf: "r \<in> set df" and rk: "group_key r = k" using r by (simp_all add: g_def)
    have kin: "k \<in> set ?ks" using rdf rk by auto
    have ck: "?chunk k = zip (map ix g) (roll_mean w (map col g))"
      by (simp only: Let_def g_def)
    have "map fst (zip (map ix g) (roll_mean w (map col g))) = map ix g"
      by (rule map_fst_zip) (simp add: lg)
    then have "set (map fst (?chunk k)) = set (map ix g)" by (simp only: ck)
    then have "fst ` set (?chunk k) = ix ` set g" by (simp only: set_map)
    then have xin: "ix r \<in> fst ` set (?chunk k)" using r by simp
    have other: "ix r \<notin> fst ` set (?chunk k')" if "k' \<in> set ?ks" "k' \<noteq> k" for k'
    proof
      assume "ix r \<in> fst ` set (?chunk k')"
      then obtain p where "p \<in> set (?chunk k')" "fst p = ix r" by (elim imageE) simp
      then have "(ix r, snd p) \<in> set (zip (map ix (filter (\<lambda>r. group_key r = k') df))
            (roll_mean w (map col (filter (\<lambda>r. group_key r = k') df))))"
        by (metis prod.collapse)
      then have "ix r \<in> set (map ix (filter (\<lambda>r. group_key r = k') df))"
        by (rule set_zip_leftD)
      then have "ix r \<in> ix ` set (filter (\<lambda>r. group_key r = k') df)"
        by (simp only: set_map)
      then obtain r' where r': "r' \<in> set df" "group_key r' = k'" "ix r' = ix r" by auto
      with inj rdf have "r' = r" by (auto dest: inj_onD)
      with r' rk that show False by simp
    qed
    show ?thesis
      unfolding groupby_rolling_mean_def
      by (rule map_of_concat_chunk[of k ?ks "ix r" ?chunk, OF kin xin other])
  qed
  have "map (\<lambda>r. map_of (groupby_rolling_mean w col df) (ix r)) g
      = map (\<lambda>r. map_of (?chunk k) (ix r)) g"
    by (rule map_cong[OF refl]) (rule look)
  also have "\<dots> = map (\<lambda>r. map_of (zip (map ix g) (roll_mean w (map col g))) (ix r)) g"
    by (simp only: Let_def g_def)
  also have "\<dots> = map Some (roll_mean w (map col g))"
    by (rule map_of_zip_labels[OF dg lg])
  finally show ?thesis .
qed

lemma truncate_extend_labelled:
  "labelled_row.truncate (labelled_row.extend (r :: labelled_row) e) = r"
  by (cases r) (simp add: labelled_row.defs csv_row.defs)

lemma group_key_extend [simp]:
  "group_key (labelled_row.extend (r :: labelled_row) e) = group_key r"
  by (cases r) (simp add: group_key_def labelled_row.defs csv_row.defs)

text \<open>
  C8. In a frame with distinct row labels, the rows that \<open>add_rolling_features\<close>
  returns for a location (lat, lon) are that location's rows in time order, and each of
  their four rolling columns is the plain rolling mean computed over these rows alone:
  the window starts afresh with each location and no value depends on another location's
  observations.
\<close>

theorem add_rolling_features_per_group:
  fixes df :: "labelled_row list" and k :: "real \<times> real"
  assumes d: "distinct (map ix df)"
  defines "g \<equiv> sort_key (\<lambda>r. (csv_row.lat r, csv_row.lon r, dt_key (csv_row.timestamp r))) (filter (\<lambda>r. group_key r = k) df)"
    and "out \<equiv> filter (\<lambda>r. group_key r = k) (add_rolling_features df)"
  shows "map labelled_row.truncate out = g
       \<and> map rolled_row.temp_roll3 out = map Some (roll_mean 3 (map csv_row.temp g))
       \<and> map rolled_row.tavg_roll3 out = map Some (roll_mean 3 (map csv_row.tavg g))
       \<and> map temp_roll7 out = map Some (roll_mean 7 (map csv_row.temp g))
       \<and> map tavg_roll7 out = map Some (roll_mean 7 (map csv_row.tavg g))"
proof -
  define S where "S = sort_key (\<lambda>r. (csv_row.lat r, csv_row.lon r, dt_key (csv_row.timestamp r))) df"
  define ext where "ext = (\<lambda>r :: labelled_row. labelled_row.extend r
      \<lparr>temp_roll3 = map_of (groupby_rolling_mean 3 csv_row.temp S) (ix r),
       tavg_roll3 = map_of (groupby_rolling_mean 3 csv_row.tavg S) (ix r),
       temp_roll7 = map_of (groupby_rolling_mean 7 csv_row.temp S) (ix r),
       tavg_roll7 = map_of (groupby_rolling_mean 7 csv_row.tavg S) (ix r)\<rparr>)"
  have dS: "distinct (map ix S)" unfolding S_def using d by (rule distinct_map_sort_key)
  have gS: "g = filter (\<lambda>r. group_key r = k) S"
    by (simp add: g_def S_def filter_sort)
  have arf: "add_rolling_features df = map ext S"
    by (simp add: add_rolling_features_def Let_def S_def ext_def)
  have out: "out = map ext g"
    by (simp add: out_def arf gS filter_map comp_def ext_def)
  have tr: "map labelled_row.truncate out = g"
    by (simp add: out comp_def ext_def truncate_extend_labelled)
  have sel: "rolled_row.temp_roll3 (ext r) = map_of (groupby_rolling_mean 3 csv_row.temp S) (ix r)"
    "rolled_row.tavg_roll3 (ext r) = map_of (groupby_rolling_mean 3 csv_row.tavg S) (ix r)"
    "temp_roll7 (ext r) = map_of (groupby_rolling_mean 7 csv_row.temp S) (ix r)"
    "tavg_roll7 (ext r) = map_of (groupby_rolling_mean 7 csv_row.tavg S) (ix r)" for r
    by (cases r; simp add: ext_def labelled_row.defs csv_row.defs)+
  have c1: "map rolled_row.temp_roll3 out = map Some (roll_mean 3 (map csv_row.temp g))"
    using groupby_rolling_mean_group[OF dS, where k=k and w=3 and col=csv_row.temp]
    by (simp add: out comp_def sel gS)
  have c2: "map rolled_row.tavg_roll3 out = map Some (roll_mean 3 (map csv_row.tavg g))"
    using groupby_rolling_mean_group[OF dS, where k=k and w=3 and col=csv_row.tavg]
    by (simp add: out comp_def sel gS)
  have c3: "map temp_roll7 out = map Some (roll_mean 7 (map csv_row.temp g))"
    using groupby_rolling_mean_group[OF dS, where k=k and w=7 and col=csv_row.temp]
    by (simp add: out comp_def sel gS)
  have c4: "map tavg_roll7 out = map Some (roll_mean 7 (map csv_row.tavg g))"
    using groupby_rolling_mean_group[OF dS, where k=k and w=7 and col=csv_row.tavg]
    by (simp add: out comp_def sel gS)
  from tr c1 c2 c3 c4 show ?thesis by simp
qed


lemma ex_sorted_group:
  "sort_key (\<lambda>r. (csv_row.lat r, csv_row.lon r, dt_key (csv_row.timestamp r))) (filter (\<lambda>r. group_key r = (1, 1)) example_table)
     = [example_table ! 2, example_table ! 0]"
  by (simp add: example_table_def group_key_def dt_key_def)

theorem add_rolling_features_per_group_witness:
  "distinct (map ix example_table)
   \<and> map rolled_row.temp_roll3 (filter (\<lambda>r. group_key r = (1, 1)) (add_rolling_features example_table))
       = [Some 20, Some 25]
   \<and> map rolled_row.tavg_roll3 (filter (\<lambda>r. group_key r = (1, 1)) (add_rolling_features example_table))
       = [Some 16, Some 20]"
proof -
  have d: "distinct (map ix example_table)" by (simp add: example_table_def)
  have t: "map csv_row.temp [example_table ! 2, example_table ! 0] = [20, 30]"
    and a: "map csv_row.tavg [example_table ! 2, example_table ! 0] = [16, 24]"
    by (simp_all add: example_table_def)
  have r: "roll_mean 3 [20, 30] = [20, 25]" "roll_mean 3 [16, 24] = [16, 20]"
    by (simp_all add: roll_mean_def)
  note th = add_rolling_features_per_group[OF d, of "(1, 1)", unfolded ex_sorted_group t a r]
  from th have "map rolled_row.temp_roll3
        (filter (\<lambda>r. group_key r = (1, 1)) (add_rolling_features example_table)) = map Some [20, 25]"
    by (rule conjunct1[OF conjunct2])
  moreover from th have "map rolled_row.tavg_roll3
        (filter (\<lambda>r. group_key r = (1, 1)) (add_rolling_features example_table)) = map Some [16, 20]"
    by (rule conjunct1[OF conjunct2[OF conjunct2]])
  ultimately show ?thesis using d by simp
qed

subsection \<open>Backward asof alignment\<close>









subsection \<open>Nearest-point join\<close>








subsection \<open>What the joins do to their inputs\<close>












end
